theory Spec2Isabelle
  imports Complex_Main
begin

section \<open>Errors and arrays\<close>

text \<open>
  The notebook computes with IEEE doubles in numpy arrays. Doubles are idealised as
  \<^typ>\<open>real\<close>: rounding, infinities and NaN are not represented, so \<open>ln\<close> and \<open>powr\<close>
  stand for \<open>np.log\<close> and \<open>**\<close> where their arguments are positive, and a division
  of arrays stands for the numpy one where the divisor is not zero. A one-dimensional
  array is a list. A two-dimensional array carries its number of columns next to the
  list of its rows, since numpy checks indices and shapes also when there are no rows.
  Python exceptions are values of \<open>error\<close>.
\<close>

datatype error = ValueError | IndexError | ZeroDivisionError | TypeError | OverflowError

datatype array2 = Array2 (ncols: nat) (rows: "real list list")

definition ones :: "nat \<Rightarrow> nat \<Rightarrow> array2" where
  "ones n m = Array2 m (replicate n (replicate m 1))"

definition zeros :: "nat \<Rightarrow> nat \<Rightarrow> array2" where
  "zeros n m = Array2 m (replicate n (replicate m 0))"

text \<open>Sequencing of computations that may raise: an error ends the computation.\<close>

definition bindE :: "error + 'a \<Rightarrow> ('a \<Rightarrow> error + 'b) \<Rightarrow> error + 'b" where
  "bindE m f = (case m of Inl e \<Rightarrow> Inl e | Inr v \<Rightarrow> f v)"

text \<open>A loop whose body may raise: the first error ends it.\<close>

primrec foldE :: "('a \<Rightarrow> 's \<Rightarrow> error + 's) \<Rightarrow> 'a list \<Rightarrow> 's \<Rightarrow> error + 's" where
  "foldE f [] s = Inr s"
| "foldE f (x # xs) s = bindE (f x s) (foldE f xs)"

text \<open>
  An elementwise operation on two one-dimensional arrays, with numpy's broadcasting:
  equal lengths, or one operand of length 1; anything else raises ValueError.
\<close>

definition ew2 :: "(real \<Rightarrow> real \<Rightarrow> real) \<Rightarrow> real list \<Rightarrow> real list \<Rightarrow> error + real list" where
  "ew2 f a b =
     (if length a = length b then Inr (map (\<lambda>(u, v). f u v) (zip a b))
      else if length a = 1 then Inr (map (\<lambda>v. f (hd a) v) b)
      else if length b = 1 then Inr (map (\<lambda>u. f u (hd b)) a)
      else Inl ValueError)"

text \<open>\<open>np.dot(X, coef)\<close> for a two-dimensional \<open>X\<close> and a one-dimensional \<open>coef\<close>.\<close>

definition dot21 :: "array2 \<Rightarrow> real list \<Rightarrow> error + real list" where
  "dot21 X coef =
     (if ncols X = length coef
      then Inr (map (\<lambda>row. sum_list (map (\<lambda>(u, v). u * v) (zip row coef))) (rows X))
      else Inl ValueError)"

text \<open>
  A slice \<open>xs[lo:hi]\<close> of a one-dimensional array: a negative bound counts from the end,
  and both bounds are clamped to the array; a slice never raises.
\<close>

definition slice_bound :: "int \<Rightarrow> nat \<Rightarrow> nat" where
  "slice_bound i n = (if i < 0 then nat (max 0 (i + int n)) else min (nat i) n)"

definition py_slice :: "int \<Rightarrow> int \<Rightarrow> 'a list \<Rightarrow> 'a list" where
  "py_slice lo hi xs =
     (let a = slice_bound lo (length xs); b = slice_bound hi (length xs)
      in take (b - a) (drop a xs))"

section \<open>Parameters and steady state\<close>

record params =
  alpha :: real
  beta :: real
  nu :: real
  delta :: real
  sigma :: real
  rho :: real
  T :: int
  T1 :: int
  porder_k :: int
  porder_z :: int
  maxiter :: int
  psitol :: real
  lrate :: real

text \<open>The largest finite double, \<open>(2 - 2 ** -52) * 2 ** 1023\<close>.\<close>

definition dbl_max :: real where
  "dbl_max = (2 - 1 / 2 ^ 52) * 2 ^ 1023"

text \<open>
  \<open>k_ss = ((1-beta+delta*beta) / (alpha*beta))**(1/(alpha-1))\<close> on Python floats: a
  division by zero raises, zero to a negative power raises, a power beyond the range of
  doubles raises OverflowError, and a negative base with a fractional exponent yields a
  complex number, which the float array \<open>k\<close> refuses (TypeError) when the main loop
  stores it; the model reports that error here.
\<close>

definition k_ss :: "params \<Rightarrow> error + real" where
  "k_ss p =
     (if alpha p * beta p = 0 then Inl ZeroDivisionError
      else if alpha p - 1 = 0 then Inl ZeroDivisionError
      else
        let b = (1 - beta p + delta p * beta p) / (alpha p * beta p);
            e = 1 / (alpha p - 1)
        in if 0 < b then (if dbl_max < b powr e then Inl OverflowError else Inr (b powr e))
           else if b = 0 then (if e < 0 then Inl ZeroDivisionError else Inr 0)
           else if of_int \<lfloor>e\<rfloor> = e
             then (if dbl_max < \<bar>b powi \<lfloor>e\<rfloor>\<bar> then Inl OverflowError
                   else Inr (b powi \<lfloor>e\<rfloor>))
           else Inl TypeError)"

section \<open>The exogenous process\<close>

text \<open>
  \<open>np.random.randn(T,1)\<close> is a sequence of draws, \<open>draws t\<close> the draw at index \<open>t\<close>;
  \<open>epsi\<close> is its first \<open>T\<close> values scaled by \<open>sigma\<close>. A negative \<open>T\<close> raises ValueError.
\<close>

definition epsi_cell :: "params \<Rightarrow> (nat \<Rightarrow> real) \<Rightarrow> error + real list" where
  "epsi_cell p draws =
     (if T p < 0 then Inl ValueError
      else Inr (map (\<lambda>t. draws t * sigma p) [0..<nat (T p)]))"

text \<open>
  \<open>lnz = np.zeros(T); lnz[0] = 0; for t in range(1,T): lnz[t] = rho*lnz[t-1] + epsi[t]\<close>.
  \<open>epsi\<close> has length \<open>T\<close>, so \<open>epsi[t]\<close> is in range. With \<open>T = 0\<close> the assignment
  \<open>lnz[0] = 0\<close> raises IndexError.
\<close>

definition lnz_cell :: "params \<Rightarrow> real list \<Rightarrow> error + real list" where
  "lnz_cell p epsi =
     (if T p < 0 then Inl ValueError
      else if T p = 0 then Inl IndexError
      else Inr (fold (\<lambda>t lnz. lnz[t := rho p * lnz ! (t - 1) + epsi ! t]) [1..<nat (T p)]
                  ((replicate (nat (T p)) 0)[0 := 0])))"

definition z_cell :: "real list \<Rightarrow> real list" where
  "z_cell lnz = map exp lnz"

text \<open>The shock path: \<open>lnz\<close> and \<open>z = np.exp(lnz)\<close>.\<close>

definition shock_cell :: "params \<Rightarrow> real list \<Rightarrow> error + real list \<times> real list" where
  "shock_cell p epsi = bindE (lnz_cell p epsi) (\<lambda>lnz. Inr (lnz, z_cell lnz))"

section \<open>The Hermite basis\<close>

text \<open>
  One pass of the loop body \<open>hx[:,j] = x * hx[:,j-1] - j * hx[:,j-2]\<close>: the column
  assignment is elementwise, so row \<open>i\<close> gets \<open>x[i] * hx[i,j-1] - j * hx[i,j-2]\<close> at
  column \<open>j\<close>.
\<close>

definition hermterms_step :: "real list \<Rightarrow> nat \<Rightarrow> real list list \<Rightarrow> real list list" where
  "hermterms_step x j hx =
     map (\<lambda>(xi, row). row[j := xi * row ! (j - 1) - real j * row ! (j - 2)]) (zip x hx)"

text \<open>
  \<open>hermterms(porder, x)\<close>. \<open>np.ones((n, porder+1))\<close> raises ValueError on a negative
  dimension; \<open>hx[:,1] = x\<close> raises IndexError when the array has fewer than two columns
  (also when it has no rows); the loop runs \<open>j = 2 .. porder\<close>.
\<close>

definition hermterms :: "int \<Rightarrow> real list \<Rightarrow> error + array2" where
  "hermterms porder x =
     (if porder + 1 < 0 then Inl ValueError
      else
        let hx = ones (length x) (nat (porder + 1))
        in if ncols hx \<le> 1 then Inl IndexError
           else
             let hx1 = map (\<lambda>(xi, row). row[1 := xi]) (zip x (rows hx))
             in Inr (Array2 (ncols hx)
                  (if porder \<ge> 2 then fold (hermterms_step x) [2..<nat (porder + 1)] hx1
                   else hx1)))"

text \<open>
  The body of the double loop of \<open>hermpoly\<close>:
  \<open>polymat[:,jk*(porder_z+1)+jz] = hk[:,jk] * hz[:,jz]\<close>. The column index is below
  \<open>(porder_k+1)*(porder_z+1)\<close> for every \<open>jk \<le> porder_k\<close> and \<open>jz \<le> porder_z\<close>.
\<close>

definition hermpoly_step ::
  "int \<Rightarrow> real list list \<Rightarrow> real list list \<Rightarrow> nat \<Rightarrow> nat \<Rightarrow> real list list \<Rightarrow> real list list" where
  "hermpoly_step pz hk hz jk jz polymat =
     map (\<lambda>(row, hkr, hzr). row[jk * nat (pz + 1) + jz := hkr ! jk * hzr ! jz])
       (zip polymat (zip hk hz))"

text \<open>
  \<open>hermpoly(porder, x)\<close>: \<open>porder\<close> is the pair of orders (the locals
  \<open>porder_k\<close> and \<open>porder_z\<close> of the source are \<open>pk\<close> and \<open>pz\<close> here), \<open>x\<close> an array of two columns,
  one row (k-state, z-state) per point.
\<close>

definition hermpoly :: "int \<times> int \<Rightarrow> (real \<times> real) list \<Rightarrow> error + array2" where
  "hermpoly porder x =
     (let pk = fst porder; pz = snd porder
      in bindE (hermterms pk (map fst x)) (\<lambda>hk.
         bindE (hermterms pz (map snd x)) (\<lambda>hz.
         if (pk + 1) * (pz + 1) < 0 then Inl ValueError
         else
           let polymat = zeros (length x) (nat ((pk + 1) * (pz + 1)))
           in Inr (Array2 (ncols polymat)
                (fold (\<lambda>jk. fold (hermpoly_step pz (rows hk) (rows hz) jk)
                               [0..<nat (pz + 1)])
                   [0..<nat (pk + 1)] (rows polymat))))))"

section \<open>The residual sum of squares\<close>

text \<open>
  \<open>rss(coef, Y, X) = np.dot((Y-np.exp(np.dot(X,coef))).T, (Y-np.exp(np.dot(X,coef))))\<close>.
  The residual is one-dimensional, so \<open>.T\<close> leaves it as it is and the outer \<open>np.dot\<close>
  is the inner product of the residual with itself.
\<close>

definition rss :: "real list \<Rightarrow> real list \<Rightarrow> array2 \<Rightarrow> error + real" where
  "rss coef Y X =
     bindE (dot21 X coef) (\<lambda>xb.
     bindE (ew2 (\<lambda>u v. u - v) Y (map exp xb)) (\<lambda>r.
     Inr (sum_list (map (\<lambda>(u, v). u * v) (zip r r)))))"

section \<open>The main loop\<close>

text \<open>
  The variables of the main cell. \<open>c\<close>, \<open>k\<close> and \<open>lnk\<close> are allocated once and
  overwritten in place by every outer iteration; \<open>psi_out\<close> and \<open>delpsi\<close> are unset
  until the first fit.
\<close>

record vars =
  c :: "real list"
  k :: "real list"
  lnk :: "real list"
  psi :: "real list"
  psi_out :: "real list option"
  delpsi :: "real option"

text \<open>
  \<open>x = np.array([[a, b]]); polynomial = hermpoly([porder_k, porder_z], x)\<close> and
  \<open>np.dot(polynomial, psi)\<close>: \<open>polynomial\<close> has one row, so the product has one element,
  and storing an expression of it into \<open>c[t]\<close> stores that of its element.
\<close>

definition poly_dot :: "params \<Rightarrow> real list \<Rightarrow> real \<Rightarrow> real \<Rightarrow> error + real" where
  "poly_dot p coef a b =
     bindE (hermpoly (porder_k p, porder_z p) [(a, b)]) (\<lambda>polynomial.
     bindE (dot21 polynomial coef) (\<lambda>d. Inr (hd d)))"

text \<open>The body of \<open>for t in range(1,T)\<close>.\<close>

definition sim_step :: "params \<Rightarrow> real list \<Rightarrow> real list \<Rightarrow> nat \<Rightarrow> vars \<Rightarrow> error + vars" where
  "sim_step p lnz z t s =
     (let lnk' = (lnk s)[t - 1 := ln (k s ! (t - 1))]
      in bindE (poly_dot p (psi s) (lnk' ! (t - 1)) (lnz ! (t - 1))) (\<lambda>d.
           let c' = (c s)[t := exp (- d / nu p)];
               k' = (k s)[t := z ! t * (k s ! (t - 1)) powr alpha p
                               + (1 - delta p) * k s ! (t - 1) - c' ! t]
           in Inr (s\<lparr>c := c', k := k', lnk := lnk'\<rparr>)))"

text \<open>
  \<open>k[0] = k_ss; lnk[0] = np.log(k[0])\<close> and the time loop. With \<open>T = 0\<close> the arrays
  are empty and \<open>k[0] = k_ss\<close> raises IndexError.
\<close>

definition simulate :: "params \<Rightarrow> real \<Rightarrow> real list \<Rightarrow> real list \<Rightarrow> vars \<Rightarrow> error + vars" where
  "simulate p kss lnz z s =
     (if length (k s) = 0 then Inl IndexError
      else
        let k0 = (k s)[0 := kss];
            lnk0 = (lnk s)[0 := ln (k0 ! 0)]
        in foldE (sim_step p lnz z) [1..<nat (T p)] (s\<lparr>k := k0, lnk := lnk0\<rparr>))"

text \<open>
  \<open>Y = beta*c[T1:T]**(-nu)*(alpha*z[T1:T]*(k[T1-1:T-1]**(alpha-1))+1-delta)\<close>.
\<close>

definition build_Y :: "params \<Rightarrow> real list \<Rightarrow> vars \<Rightarrow> error + real list" where
  "build_Y p z s =
     bindE (ew2 (\<lambda>u v. u * v)
              (map (\<lambda>v. alpha p * v) (py_slice (T1 p) (T p) z))
              (map (\<lambda>v. v powr (alpha p - 1)) (py_slice (T1 p - 1) (T p - 1) (k s))))
       (\<lambda>m. ew2 (\<lambda>u v. u * v)
              (map (\<lambda>v. beta p * v powr (- nu p)) (py_slice (T1 p) (T p) (c s)))
              (map (\<lambda>v. v + 1 - delta p) m))"

text \<open>
  \<open>x = np.array([lnk[T1-2:T-2],lnz[T1-1:T-1]]).T; X = hermpoly([porder_k, porder_z],x)\<close>.
  Two slices of different lengths make a ragged array, which has no columns to index:
  \<open>x[:,0]\<close> in \<open>hermpoly\<close> raises IndexError.
\<close>

definition build_X :: "params \<Rightarrow> real list \<Rightarrow> vars \<Rightarrow> error + array2" where
  "build_X p lnz s =
     (let a = py_slice (T1 p - 2) (T p - 2) (lnk s);
          b = py_slice (T1 p - 1) (T p - 1) lnz
      in if length a = length b then hermpoly (porder_k p, porder_z p) (zip a b)
         else Inl IndexError)"

text \<open>
  \<open>opt.minimize(rss, psi, args=(Y,X), method='Nelder-Mead', ...).x\<close> is a library call: the
  minimiser is a parameter, a function of the objective and the starting point.
\<close>

type_synonym minimizer = "(real list \<Rightarrow> error + real) \<Rightarrow> real list \<Rightarrow> error + real list"

text \<open>
  One pass of \<open>for psiter in range(maxiter)\<close>. The result says whether the pass left
  the loop through \<open>break\<close>.
\<close>

definition main_pass ::
  "params \<Rightarrow> real \<Rightarrow> real list \<Rightarrow> real list \<Rightarrow> minimizer \<Rightarrow> vars \<Rightarrow> error + (bool \<times> vars)" where
  "main_pass p kss lnz z minimize s =
     bindE (simulate p kss lnz z s) (\<lambda>s1.
     bindE (build_Y p z s1) (\<lambda>Y.
     bindE (build_X p lnz s1) (\<lambda>X.
     bindE (minimize (\<lambda>coef. rss coef Y X) (psi s1)) (\<lambda>out.
     bindE (ew2 (\<lambda>u v. u - v) (psi s1) out) (\<lambda>d.
       let dp = sqrt (sum_list (map (\<lambda>v. \<bar>v\<bar> ^ 2) d));
           s2 = s1\<lparr>psi_out := Some out, delpsi := Some dp\<rparr>
       in if dp < psitol p then Inr (True, s2)
          else bindE (ew2 (\<lambda>u v. u + v) (map (\<lambda>v. lrate p * v) out)
                        (map (\<lambda>v. (1 - lrate p) * v) (psi s1)))
                 (\<lambda>new. Inr (False, s2\<lparr>psi := new\<rparr>)))))))"

datatype exit = Break | Exhausted

text \<open>The outer loop: \<open>n\<close> passes are left.\<close>

fun psiter_loop ::
  "params \<Rightarrow> real \<Rightarrow> real list \<Rightarrow> real list \<Rightarrow> minimizer \<Rightarrow> nat \<Rightarrow> vars \<Rightarrow> error + (exit \<times> vars)" where
  "psiter_loop p kss lnz z minimize 0 s = Inr (Exhausted, s)"
| "psiter_loop p kss lnz z minimize (Suc n) s =
     bindE (main_pass p kss lnz z minimize s) (\<lambda>(brk, s').
       if brk then Inr (Break, s') else psiter_loop p kss lnz z minimize n s')"

text \<open>
  The cells in order: steady state, shock path, then the main cell, which allocates
  \<open>c\<close>, \<open>k\<close> and \<open>lnk\<close> as zeros, takes the initial \<open>psi\<close> and runs the loop.
\<close>

definition main_cell ::
  "params \<Rightarrow> (nat \<Rightarrow> real) \<Rightarrow> minimizer \<Rightarrow> real list \<Rightarrow> error + (exit \<times> vars)" where
  "main_cell p draws minimize psi0 =
     bindE (k_ss p) (\<lambda>kss.
     bindE (epsi_cell p draws) (\<lambda>epsi.
     bindE (shock_cell p epsi) (\<lambda>(lnz, z).
       psiter_loop p kss lnz z minimize (nat (maxiter p))
         \<lparr>c = replicate (nat (T p)) 0, k = replicate (nat (T p)) 0,
          lnk = replicate (nat (T p)) 0, psi = psi0, psi_out = None, delpsi = None\<rparr>)))"

section \<open>The recurrence of the specification\<close>

text \<open>
  The specification defines the basis by \<open>H\<^sub>0 = 1\<close>, \<open>H\<^sub>1 = x\<close> and
  \<open>H\<^bsub>j+1\<^esub> = x * H\<^sub>j - j * H\<^bsub>j-1\<^esub>\<close>. This function follows those words; it is
  the reference the code is compared with.
\<close>

fun hermite_spec :: "real \<Rightarrow> nat \<Rightarrow> real" where
  "hermite_spec x 0 = 1"
| "hermite_spec x (Suc 0) = x"
| "hermite_spec x (Suc (Suc j)) = x * hermite_spec x (Suc j) - real (Suc j) * hermite_spec x j"

section \<open>Auxiliary notions\<close>

text \<open>
  The value the loop of \<open>hermterms\<close> stores in column \<open>j\<close>: the loop multiplies the
  second term by the column index \<open>j\<close> itself.
\<close>

fun herm_code :: "real \<Rightarrow> nat \<Rightarrow> real" where
  "herm_code x 0 = 1"
| "herm_code x (Suc 0) = x"
| "herm_code x (Suc (Suc j)) = x * herm_code x (Suc j) - real (Suc (Suc j)) * herm_code x j"

text \<open>An array row whose first \<open>q\<close> entries are final and whose other entries still
  hold the initial value \<open>d\<close>.\<close>

definition filled :: "(nat \<Rightarrow> real) \<Rightarrow> real \<Rightarrow> nat \<Rightarrow> nat \<Rightarrow> real list" where
  "filled g d n q = map g [0..<q] @ replicate (n - q) d"

text \<open>The entry of a row of \<open>hermpoly\<close> at flat position \<open>q\<close>, for \<open>wz\<close> columns of
  the z-basis.\<close>

definition tensor_entry :: "nat \<Rightarrow> real \<times> real \<Rightarrow> nat \<Rightarrow> real" where
  "tensor_entry wz pt q = herm_code (fst pt) (q div wz) * herm_code (snd pt) (q mod wz)"

text \<open>The relations between the entries of \<open>c\<close>, \<open>k\<close> and \<open>lnk\<close> that step \<open>t\<close> of
  the time loop establishes, and the invariant of the time loop after the steps below
  \<open>m\<close>.\<close>

definition sim_rel :: "params \<Rightarrow> real list \<Rightarrow> real list \<Rightarrow> real list \<Rightarrow> vars \<Rightarrow> nat \<Rightarrow> bool" where
  "sim_rel p lnz z coef s t =
     ((\<exists>d. poly_dot p coef (lnk s ! (t - 1)) (lnz ! (t - 1)) = Inr d \<and> c s ! t = exp (- d / nu p))
      \<and> k s ! t = z ! t * (k s ! (t - 1)) powr alpha p + (1 - delta p) * k s ! (t - 1) - c s ! t
      \<and> lnk s ! (t - 1) = ln (k s ! (t - 1)))"

definition sim_inv :: "params \<Rightarrow> real list \<Rightarrow> real list \<Rightarrow> vars \<Rightarrow> nat \<Rightarrow> vars \<Rightarrow> bool" where
  "sim_inv p lnz z s0 m s =
     (length (c s) = length (c s0) \<and> length (k s) = length (k s0)
      \<and> length (lnk s) = length (lnk s0)
      \<and> psi s = psi s0 \<and> psi_out s = psi_out s0 \<and> delpsi s = delpsi s0
      \<and> c s ! 0 = c s0 ! 0 \<and> k s ! 0 = k s0 ! 0
      \<and> (\<forall>t. 1 \<le> t \<and> t < m \<longrightarrow> sim_rel p lnz z (psi s0) s t))"

text \<open>What the time loop leaves alone: the length of \<open>c\<close>, its entry 0, and \<open>psi\<close>.\<close>

definition keeps :: "vars \<Rightarrow> vars \<Rightarrow> bool" where
  "keeps s s' = (length (c s') = length (c s) \<and> c s' ! 0 = c s ! 0 \<and> psi s' = psi s)"

text \<open>
  A small configuration for concrete runs: two periods, first orders, steady state 1,
  no noise. \<open>vars0\<close> is the state the main cell allocates, \<open>zero_draws\<close> a generator
  that draws zeros, \<open>const_fit\<close> a minimiser that returns a fixed point.
\<close>

definition test_params :: "real \<Rightarrow> params" where
  "test_params tol =
     \<lparr>alpha = 1 / 2, beta = 2 / 3, nu = 1, delta = 0, sigma = 0, rho = 1 / 2,
      T = 2, T1 = 2, porder_k = 1, porder_z = 1, maxiter = 1, psitol = tol, lrate = 1 / 2\<rparr>"

definition vars0 :: "nat \<Rightarrow> real list \<Rightarrow> vars" where
  "vars0 n psi0 = \<lparr>c = replicate n 0, k = replicate n 0, lnk = replicate n 0,
                   psi = psi0, psi_out = None, delpsi = None\<rparr>"

definition zero_draws :: "nat \<Rightarrow> real" where
  "zero_draws t = 0"

definition const_fit :: "real list \<Rightarrow> minimizer" where
  "const_fit out objective x0 = Inr out"

section \<open>Basic facts\<close>

lemma bindE_Inr [simp]: "bindE (Inr v) f = f v"
  by (simp add: bindE_def)

lemma bindE_Inl [simp]: "bindE (Inl e) f = Inl e"
  by (simp add: bindE_def)

lemma foldE_append: "foldE f (xs @ ys) s = bindE (foldE f xs s) (foldE f ys)"
  by (induction xs arbitrary: s) (auto simp: bindE_def split: sum.splits)

lemma length_filled: "q \<le> n \<Longrightarrow> length (filled g d n q) = n"
  by (simp add: filled_def)

lemma filled_nth_lt: "j < q \<Longrightarrow> filled g d n q ! j = g j"
  by (simp add: filled_def nth_append)

lemma filled_update: "q < n \<Longrightarrow> (filled g d n q)[q := g q] = filled g d n (Suc q)"
  by (simp add: filled_def list_update_append Suc_diff_Suc [symmetric] del: replicate_Suc
      ) (metis Suc_diff_Suc list_update_code(2) replicate_Suc)

lemma filled_full: "filled g d n n = map g [0..<n]"
  by (simp add: filled_def)

lemma zip_map_same: "zip x (map f x) = map (\<lambda>a. (a, f a)) x"
  by (induction x) auto

lemma zip3_map:
  "zip (map f x) (zip (map g x) (map h x)) = map (\<lambda>a. (f a, g a, h a)) x"
  by (induction x) auto

lemma sum_list_zip_mult:
  assumes "length a = length b"
  shows "sum_list (map (\<lambda>(u, v). u * v) (zip a b)) = (\<Sum>j<length b. a ! j * b ! (j::nat) :: real)"
proof -
  have "sum_list (map (\<lambda>(u, v). u * v) (zip a b))
        = (\<Sum>j = 0..<length (zip a b). (map (\<lambda>(u, v). u * v) (zip a b)) ! j)"
    by (simp add: sum_list_sum_nth)
  also have "\<dots> = (\<Sum>j = 0..<length b. a ! j * b ! j)"
    using assms by (intro sum.cong) auto
  finally show ?thesis by (simp add: atLeast0LessThan)
qed

lemma fold_update_keeps:
  assumes "\<forall>t \<in> set ts. t \<noteq> j"
  shows "fold (\<lambda>t l. l[t := g t l]) ts l0 ! j = l0 ! j
         \<and> length (fold (\<lambda>t l. l[t := g t l]) ts l0) = length l0"
  using assms by (induction ts arbitrary: l0) auto

lemma ew2_same_length:
  assumes "length a = length b"
  shows "ew2 f a b = Inr (map (\<lambda>i. f (a ! i) (b ! i)) [0..<length a])"
proof -
  have "map (\<lambda>(u, v). f u v) (zip a b) = map (\<lambda>i. f (a ! i) (b ! i)) [0..<length a]"
    using assms by (intro nth_equalityI) simp_all
  then show ?thesis using assms by (simp add: ew2_def)
qed

lemma sq_norm_sum:
  "sum_list (map (\<lambda>v. \<bar>v\<bar> ^ 2) (map g [0..<n])) = (\<Sum>i<n. (g i :: real)\<^sup>2)"
  by (simp add: sum_list_sum_nth atLeast0LessThan)

lemma py_slice_inside:
  assumes "0 \<le> lo" "lo \<le> hi" "hi \<le> int (length xs)"
  shows "length (py_slice lo hi xs) = nat (hi - lo)"
    and "j < nat (hi - lo) \<Longrightarrow> py_slice lo hi xs ! j = xs ! (nat lo + j)"
proof -
  have b: "slice_bound lo (length xs) = nat lo" "slice_bound hi (length xs) = nat hi"
    using assms by (auto simp: slice_bound_def)
  have d: "nat hi - nat lo = nat (hi - lo)"
    using assms by simp
  show "length (py_slice lo hi xs) = nat (hi - lo)"
    using assms by (simp add: py_slice_def b d Let_def)
  show "j < nat (hi - lo) \<Longrightarrow> py_slice lo hi xs ! j = xs ! (nat lo + j)"
    using assms by (simp add: py_slice_def b d Let_def)
qed

lemma py_slice_window:
  assumes "0 \<le> d" "d \<le> lo" "lo \<le> hi" "hi \<le> int (length xs)"
  shows "length (py_slice (lo - d) (hi - d) xs) = nat (hi - lo)"
    and "j < nat (hi - lo) \<Longrightarrow> py_slice (lo - d) (hi - d) xs ! j = xs ! (nat lo + j - nat d)"
proof -
  have h: "0 \<le> lo - d" "lo - d \<le> hi - d" "hi - d \<le> int (length xs)"
    using assms by simp_all
  have e: "hi - d - (lo - d) = hi - lo" by simp
  show "length (py_slice (lo - d) (hi - d) xs) = nat (hi - lo)"
    using py_slice_inside(1) [OF h] by (simp only: e)
  assume j: "j < nat (hi - lo)"
  have "nat (lo - d) + j = nat lo + j - nat d"
    using assms by linarith
  then show "py_slice (lo - d) (hi - d) xs ! j = xs ! (nat lo + j - nat d)"
    using py_slice_inside(2) [OF h, of j] j by (simp only: e)
qed

lemma flat_index_less:
  assumes "jk < wk" "jz < wz"
  shows "jk * wz + jz < wk * (wz::nat)"
proof -
  have "jk * wz + jz < Suc jk * wz" using assms(2) by simp
  also have "\<dots> \<le> wk * wz" using assms(1) by (intro mult_le_mono1) simp
  finally show ?thesis .
qed

lemma dbl_max_ge: "4 \<le> dbl_max"
proof -
  have "(2::real) ^ 2 \<le> 2 ^ 1023"
    by (rule power_increasing) simp_all
  moreover have "(1::real) \<le> 2 - 1 / 2 ^ 52"
    by simp
  ultimately have "1 * (2::real) ^ 2 \<le> (2 - 1 / 2 ^ 52) * 2 ^ 1023"
    by (intro mult_mono) simp_all
  then show ?thesis
    by (simp add: dbl_max_def)
qed

lemma upt_small: "[0..<2] = [0, 1]" "[Suc 0..<2] = [1]" "[0..<4] = [0, 1, 2, 3]"
  "replicate 2 x = [x, x]"
  by (simp_all add: upt_rec numeral_eq_Suc)

section \<open>What \<open>hermterms\<close> and \<open>hermpoly\<close> compute\<close>

text \<open>
  For an order of at least 1, \<open>hermterms\<close> returns, for each point, the values
  \<open>herm_code x 0 .. herm_code x porder\<close>.
\<close>

lemma hermterms_step_filled:
  assumes "2 \<le> m" "m < n"
  shows "hermterms_step x m (map (\<lambda>xi. filled (herm_code xi) 1 n m) x)
         = map (\<lambda>xi. filled (herm_code xi) 1 n (Suc m)) x"
proof -
  obtain j where m: "m = Suc (Suc j)"
    using assms(1) by (metis Suc_le_D numeral_2_eq_2 Suc_le_mono)
  have "xi * filled (herm_code xi) 1 n m ! (m - 1) - real m * filled (herm_code xi) 1 n m ! (m - 2)
        = herm_code xi m" for xi
    by (simp add: m filled_nth_lt)
  then show ?thesis
    using assms(2) by (simp add: hermterms_step_def zip_map_same filled_update o_def)
qed

lemma hermterms_fold:
  assumes "2 \<le> m" "m \<le> n"
  shows "fold (hermterms_step x) [2..<m] (map (\<lambda>xi. filled (herm_code xi) 1 n 2) x)
         = map (\<lambda>xi. filled (herm_code xi) 1 n m) x"
  using assms
proof (induction m)
  case 0
  then show ?case by simp
next
  case (Suc m)
  show ?case
  proof (cases "m = 1")
    case True
    then show ?thesis by (simp add: numeral_2_eq_2)
  next
    case False
    with Suc.prems have m: "2 \<le> m" "m < n" by auto
    then have "[2..<Suc m] = [2..<m] @ [m]" by simp
    then show ?thesis
      using Suc.IH m by (simp add: hermterms_step_filled)
  qed
qed

lemma hermterms_rows:
  assumes "1 \<le> porder"
  shows "hermterms porder x
         = Inr (Array2 (nat (porder + 1))
                  (map (\<lambda>xi. map (herm_code xi) [0..<nat (porder + 1)]) x))"
proof -
  define n where "n = nat (porder + 1)"
  have n: "2 \<le> n" using assms by (simp add: n_def)
  have init: "map (\<lambda>(xi, row). row[1 := xi]) (zip x (replicate (length x) (replicate n 1)))
              = map (\<lambda>xi. filled (herm_code xi) 1 n 2) x"
  proof -
    obtain r where r: "n = Suc (Suc r)"
      using n by (metis Suc_le_D numeral_2_eq_2 Suc_le_mono)
    have "zip x (replicate (length x) (replicate n (1::real))) = map (\<lambda>a. (a, replicate n 1)) x"
      by (induction x) auto
    then show ?thesis
      by (simp add: r filled_def numeral_2_eq_2 upt_rec o_def)
  qed
  show ?thesis
  proof (cases "2 \<le> porder")
    case True
    then show ?thesis
      using assms n hermterms_fold [of n n x] init
      by (simp add: hermterms_def ones_def n_def [symmetric] filled_full Let_def)
  next
    case False
    with assms have "porder = 1" by simp
    then show ?thesis
      by (simp add: hermterms_def ones_def Let_def numeral_2_eq_2 upt_rec zip_map_same o_def)
        (induction x; simp)
  qed
qed

text \<open>
  For orders of at least 1, \<open>hermpoly\<close> returns, for each point, the row of products in
  k-major order.
\<close>

lemma hermpoly_step_filled:
  assumes "jk < wk" "jz < wz" "wz = nat (pz + 1)"
  shows "hermpoly_step pz (map (\<lambda>pt. map (herm_code (fst pt)) [0..<wk]) x)
           (map (\<lambda>pt. map (herm_code (snd pt)) [0..<wz]) x) jk jz
           (map (\<lambda>pt. filled (tensor_entry wz pt) 0 (wk * wz) (jk * wz + jz)) x)
         = map (\<lambda>pt. filled (tensor_entry wz pt) 0 (wk * wz) (Suc (jk * wz + jz))) x"
proof -
  have lt: "jk * wz + jz < wk * wz"
    using assms(1,2) by (rule flat_index_less)
  have val: "herm_code (fst pt) jk * herm_code (snd pt) jz = tensor_entry wz pt (jk * wz + jz)" for pt
    using assms(2) by (simp add: tensor_entry_def)
  show ?thesis
    using assms(1,2) lt
    by (simp add: hermpoly_step_def zip3_map o_def assms(3) [symmetric] val filled_update)
qed

lemma hermpoly_inner:
  assumes "jk < wk" "m \<le> wz" "wz = nat (pz + 1)"
  shows "fold (hermpoly_step pz (map (\<lambda>pt. map (herm_code (fst pt)) [0..<wk]) x)
                 (map (\<lambda>pt. map (herm_code (snd pt)) [0..<wz]) x) jk) [0..<m]
           (map (\<lambda>pt. filled (tensor_entry wz pt) 0 (wk * wz) (jk * wz)) x)
         = map (\<lambda>pt. filled (tensor_entry wz pt) 0 (wk * wz) (jk * wz + m)) x"
  using assms(2)
proof (induction m)
  case 0
  then show ?case by simp
next
  case (Suc m)
  then have "m < wz" by simp
  with Suc assms(1,3) show ?case
    by (simp add: hermpoly_step_filled)
qed

lemma hermpoly_outer:
  assumes "m \<le> wk" "wz = nat (pz + 1)"
  shows "fold (\<lambda>jk. fold (hermpoly_step pz (map (\<lambda>pt. map (herm_code (fst pt)) [0..<wk]) x)
                 (map (\<lambda>pt. map (herm_code (snd pt)) [0..<wz]) x) jk) [0..<wz]) [0..<m]
           (map (\<lambda>pt. filled (tensor_entry wz pt) 0 (wk * wz) 0) x)
         = map (\<lambda>pt. filled (tensor_entry wz pt) 0 (wk * wz) (m * wz)) x"
  using assms(1)
proof (induction m)
  case 0
  then show ?case by simp
next
  case (Suc m)
  then have "m < wk" by simp
  with Suc assms(2) show ?case
    by (simp add: hermpoly_inner add.commute)
qed

lemma hermpoly_rows:
  assumes "1 \<le> pk" "1 \<le> pz"
  shows "hermpoly (pk, pz) x
         = Inr (Array2 (nat (pk + 1) * nat (pz + 1))
             (map (\<lambda>pt. map (tensor_entry (nat (pz + 1)) pt) [0..<nat (pk + 1) * nat (pz + 1)]) x))"
proof -
  define wk where "wk = nat (pk + 1)"
  define wz where "wz = nat (pz + 1)"
  have dim: "nat ((pk + 1) * (pz + 1)) = wk * wz"
    using assms by (simp add: wk_def wz_def nat_mult_distrib)
  have nonneg: "\<not> (pk + 1) * (pz + 1) < 0"
    using assms by (simp add: not_less)
  have init: "replicate (length x) (replicate (wk * wz) (0::real))
              = map (\<lambda>pt. filled (tensor_entry wz pt) 0 (wk * wz) 0) x"
    by (simp add: filled_def map_replicate_const)
  show ?thesis
    using hermpoly_outer [of wk wk wz pz x]
    by (simp add: hermpoly_def hermterms_rows assms zeros_def Let_def dim nonneg init
        wk_def [symmetric] wz_def [symmetric] filled_full o_def)
qed

lemma hermpoly_single_row:
  assumes "1 \<le> pk" "1 \<le> pz" "j < length x"
  shows "hermpoly (pk, pz) [x ! j]
         = Inr (Array2 (nat (pk + 1) * nat (pz + 1))
                 [map (tensor_entry (nat (pz + 1)) (x ! j)) [0..<nat (pk + 1) * nat (pz + 1)]])"
  using assms by (simp add: hermpoly_rows)

lemma hermpoly_11: "hermpoly (1, 1) [(a, b)] = Inr (Array2 4 [[1, b, a, a * b]])"
  by (simp add: hermpoly_rows tensor_entry_def upt_small)

text \<open>
  Column \<open>jk * (pz + 1) + jz\<close> of \<open>hermpoly\<close> is the product of entry \<open>jk\<close> of the
  k-basis and entry \<open>jz\<close> of the z-basis, when both orders are at least 1.
\<close>

lemma hermpoly_columns:
  assumes "1 \<le> pk" "1 \<le> pz" "hermpoly (pk, pz) [(a, b)] = Inr P"
    "hermterms pk [a] = Inr hk" "hermterms pz [b] = Inr hz"
    "jk < nat (pk + 1)" "jz < nat (pz + 1)"
  shows "ncols P = nat (pk + 1) * nat (pz + 1) \<and> length (rows P ! 0) = ncols P
         \<and> rows P ! 0 ! (jk * nat (pz + 1) + jz) = rows hk ! 0 ! jk * rows hz ! 0 ! jz"
proof -
  have lt: "jk * nat (pz + 1) + jz < nat (pk + 1) * nat (pz + 1)"
    using assms(6,7) by (rule flat_index_less)
  have P: "P = Array2 (nat (pk + 1) * nat (pz + 1))
      [map (tensor_entry (nat (pz + 1)) (a, b)) [0..<nat (pk + 1) * nat (pz + 1)]]"
    using assms(1,2,3) by (simp add: hermpoly_rows)
  have hk: "hk = Array2 (nat (pk + 1)) [map (herm_code a) [0..<nat (pk + 1)]]"
    using assms(1,4) by (simp add: hermterms_rows)
  have hz: "hz = Array2 (nat (pz + 1)) [map (herm_code b) [0..<nat (pz + 1)]]"
    using assms(2,5) by (simp add: hermterms_rows)
  show ?thesis
    using lt assms(6,7) by (simp add: P hk hz tensor_entry_def)
qed

section \<open>Properties of the Hermite basis\<close>

text \<open>
  C1: the code does not compute the probabilists' Hermite values of the specification.
  At order 2 and \<open>x = 0\<close> the loop stores \<open>0 * 0 - 2 * 1 = -2\<close> in column 2, where the
  recurrence \<open>H\<^sub>2 = x * H\<^sub>1 - 1 * H\<^sub>0\<close> gives \<open>-1\<close>: the loop multiplies by the column
  index \<open>j\<close> instead of \<open>j - 1\<close>.
\<close>

theorem hermterms_order2_at_zero:
  "hermterms 2 [0] = Inr (Array2 3 [[1, 0, - 2]]) \<and> map (hermite_spec 0) [0..<3] = [1, 0, - 1]"
  by (simp add: hermterms_rows upt_rec numeral_eq_Suc)

text \<open>
  C2: \<open>hermterms\<close> with order 0 does not return \<open>[1]\<close>: the unconditional assignment
  to column 1 raises IndexError, whatever the points are.
\<close>

theorem hermterms_order0_raises: "hermterms 0 x = Inl IndexError"
  by (simp add: hermterms_def ones_def)

text \<open>
  C7: with order 0 for the k-state, \<open>hermpoly\<close> returns no columns at all: the call of
  \<open>hermterms\<close> raises IndexError, for every order of the z-state and every array of
  points.
\<close>

theorem hermpoly_order0_raises: "hermpoly (0, pz) x = Inl IndexError"
  by (simp add: hermpoly_def hermterms_def ones_def)

section \<open>The residual sum of squares\<close>

text \<open>
  C8: for a target \<open>Y\<close> with one entry per row of \<open>X\<close> and coefficients with one entry
  per column of \<open>X\<close>, \<open>rss\<close> returns the sum over the rows of the squared difference
  between the target and the exponential of the row's product with the coefficients.
\<close>

theorem rss_is_sum_of_squares:
  assumes "length Y = length (rows X)"
    and "ncols X = length coef"
    and "\<forall>row \<in> set (rows X). length row = ncols X"
  shows "rss coef Y X
         = Inr (\<Sum>i<length Y. (Y ! i - exp (\<Sum>j<length coef. rows X ! i ! j * coef ! j))\<^sup>2)"
proof -
  let ?xb = "map (\<lambda>row. sum_list (map (\<lambda>(u, v). u * v) (zip row coef))) (rows X)"
  let ?r = "map (\<lambda>(u, v). u - v) (zip Y (map exp ?xb))"
  have len: "length ?r = length Y"
    using assms(1) by simp
  have r: "?r ! i = Y ! i - exp (\<Sum>j<length coef. rows X ! i ! j * coef ! j)"
    if "i < length Y" for i
  proof -
    have "rows X ! i \<in> set (rows X)"
      using that assms(1) by simp
    then have "length (rows X ! i) = length coef"
      using assms(2,3) by simp
    then show ?thesis
      using that assms(1) by (simp add: sum_list_zip_mult)
  qed
  have "rss coef Y X = Inr (sum_list (map (\<lambda>(u, v). u * v) (zip ?r ?r)))"
    using assms(1,2) by (simp add: rss_def dot21_def ew2_def)
  also have "sum_list (map (\<lambda>(u, v). u * v) (zip ?r ?r)) = (\<Sum>i<length ?r. ?r ! i * ?r ! i)"
    by (rule sum_list_zip_mult) simp
  also have "\<dots> = (\<Sum>i<length Y. (Y ! i - exp (\<Sum>j<length coef. rows X ! i ! j * coef ! j))\<^sup>2)"
    unfolding len
  proof (intro sum.cong refl)
    fix i assume "i \<in> {..<length Y}"
    then have "i < length Y" by simp
    from r [OF this] show "?r ! i * ?r ! i
        = (Y ! i - exp (\<Sum>j<length coef. rows X ! i ! j * coef ! j))\<^sup>2"
      by (simp only: power2_eq_square)
  qed
  finally show ?thesis .
qed

theorem rss_is_sum_of_squares_witness:
  "rss [0] [1, 3] (Array2 1 [[1], [2]]) = Inr 4"
  using rss_is_sum_of_squares [of "[1, 3]" "Array2 1 [[1], [2]]" "[0]"]
  by (simp add: lessThan_Suc numeral_2_eq_2)

section \<open>The shock path\<close>

text \<open>
  C10: two noise sequences of length \<open>T\<close> that agree at the indices \<open>1 .. T-1\<close> give
  the same log-productivity and productivity sequences, whatever their values at
  index 0; and for \<open>T \<ge> 1\<close> the path is produced, has length \<open>T\<close> and starts at 0.
\<close>

theorem shock_ignores_first_draw:
  assumes "length e1 = nat (T p)" "length e2 = nat (T p)"
    and "\<forall>t. 1 \<le> t \<and> t < nat (T p) \<longrightarrow> e1 ! t = e2 ! t"
  shows "shock_cell p e1 = shock_cell p e2
         \<and> (1 \<le> T p \<longrightarrow>
              (\<exists>lnz. shock_cell p e1 = Inr (lnz, map exp lnz)
                     \<and> length lnz = nat (T p) \<and> lnz ! 0 = 0))"
proof -
  let ?f = "\<lambda>e t (lnz::real list). lnz[t := rho p * lnz ! (t - 1) + e ! t]"
  have "fold (?f e1) [1..<nat (T p)] l0 = fold (?f e2) [1..<nat (T p)] l0" for l0
    using assms(3) by (intro fold_cong) auto
  then have eq: "shock_cell p e1 = shock_cell p e2"
    by (simp add: shock_cell_def lnz_cell_def)
  have "\<forall>t \<in> set [1..<nat (T p)]. t \<noteq> 0" by simp
  from fold_update_keeps [OF this, of "\<lambda>t lnz. rho p * lnz ! (t - 1) + e1 ! t"
      "(replicate (nat (T p)) 0)[0 := 0]"]
  have "1 \<le> T p \<longrightarrow>
          (\<exists>lnz. shock_cell p e1 = Inr (lnz, map exp lnz)
                 \<and> length lnz = nat (T p) \<and> lnz ! 0 = 0)"
    by (auto simp: shock_cell_def lnz_cell_def z_cell_def)
  with eq show ?thesis by simp
qed

section \<open>Concrete runs\<close>

lemma test_sel:
  "alpha (test_params tol) = 1 / 2" "beta (test_params tol) = 2 / 3" "nu (test_params tol) = 1"
  "delta (test_params tol) = 0" "sigma (test_params tol) = 0" "rho (test_params tol) = 1 / 2"
  "T (test_params tol) = 2" "T1 (test_params tol) = 2" "porder_k (test_params tol) = 1"
  "porder_z (test_params tol) = 1" "maxiter (test_params tol) = 1"
  "psitol (test_params tol) = tol" "lrate (test_params tol) = 1 / 2"
  by (simp_all add: test_params_def)

lemma test_k_ss: "k_ss (test_params tol) = Inr 1"
  using dbl_max_ge by (simp add: k_ss_def test_sel Let_def)

lemma test_shock: "shock_cell (test_params tol) [0, 0] = Inr ([0, 0], [1, 1])"
  by (simp add: shock_cell_def lnz_cell_def z_cell_def test_sel upt_small)

lemma test_epsi: "epsi_cell (test_params tol) zero_draws = Inr [0, 0]"
  by (simp add: epsi_cell_def test_sel upt_small zero_draws_def)

lemma test_poly_dot:
  "poly_dot (test_params tol) [w0, w1, w2, w3] a b = Inr (w0 + b * w1 + a * w2 + a * b * w3)"
  by (simp add: poly_dot_def test_sel hermpoly_11 dot21_def)

lemma test_simulate:
  "simulate (test_params tol) 1 [0, 0] [1, 1] (vars0 2 [w0, w1, w2, w3])
   = Inr ((vars0 2 [w0, w1, w2, w3])
            \<lparr>c := [0, exp (- w0)], k := [1, 2 - exp (- w0)], lnk := [0, 0]\<rparr>)"
  by (simp add: simulate_def sim_step_def vars0_def Let_def test_poly_dot test_sel upt_small)

lemma test_build_Y:
  "length (c s) = 2 \<Longrightarrow> length (k s) = 2 \<Longrightarrow> build_Y (test_params tol) [1, 1] s = Inr []"
  by (simp add: build_Y_def py_slice_def slice_bound_def test_sel ew2_def)

lemma test_build_X:
  "length (lnk s) = 2 \<Longrightarrow> build_X (test_params tol) [0, 0] s = Inr (Array2 4 [])"
  by (simp add: build_X_def py_slice_def slice_bound_def test_sel hermpoly_rows Let_def)

lemma test_main_pass:
  "main_pass (test_params tol) 1 [0, 0] [1, 1] (const_fit [o0, o1, o2, o3])
     (vars0 2 [w0, w1, w2, w3])
   = (if sqrt ((w0 - o0)\<^sup>2 + ((w1 - o1)\<^sup>2 + ((w2 - o2)\<^sup>2 + (w3 - o3)\<^sup>2))) < tol
      then Inr (True, \<lparr>c = [0, exp (- w0)], k = [1, 2 - exp (- w0)], lnk = [0, 0],
             psi = [w0, w1, w2, w3], psi_out = Some [o0, o1, o2, o3],
             delpsi = Some (sqrt ((w0 - o0)\<^sup>2 + ((w1 - o1)\<^sup>2 + ((w2 - o2)\<^sup>2 + (w3 - o3)\<^sup>2))))\<rparr>)
      else Inr (False, \<lparr>c = [0, exp (- w0)], k = [1, 2 - exp (- w0)], lnk = [0, 0],
             psi = [o0 / 2 + w0 / 2, o1 / 2 + w1 / 2, o2 / 2 + w2 / 2, o3 / 2 + w3 / 2],
             psi_out = Some [o0, o1, o2, o3],
             delpsi = Some (sqrt ((w0 - o0)\<^sup>2 + ((w1 - o1)\<^sup>2 + ((w2 - o2)\<^sup>2 + (w3 - o3)\<^sup>2))))\<rparr>))"
  unfolding main_pass_def test_simulate bindE_Inr
  by (simp add: test_build_Y test_build_X const_fit_def ew2_def vars0_def Let_def test_sel)

lemma test_main_cell:
  "main_cell (test_params tol) zero_draws mz psi0
   = psiter_loop (test_params tol) 1 [0, 0] [1, 1] mz 1 (vars0 2 psi0)"
  by (simp add: main_cell_def test_k_ss test_epsi test_shock test_sel vars0_def)

theorem shock_ignores_first_draw_witness:
  "shock_cell (test_params 2) [5, 3] = shock_cell (test_params 2) [7, 3]
   \<and> (\<exists>lnz. shock_cell (test_params 2) [5, 3] = Inr (lnz, map exp lnz)
          \<and> length lnz = nat (T (test_params 2)) \<and> lnz ! 0 = 0)"
proof -
  have l: "length [5, 3 :: real] = nat (T (test_params 2))"
    "length [7, 3 :: real] = nat (T (test_params 2))"
    by (simp_all add: test_sel)
  have h: "\<forall>t. 1 \<le> t \<and> t < nat (T (test_params 2)) \<longrightarrow> [5, 3 :: real] ! t = [7, 3] ! t"
    by (auto simp: test_sel less_Suc_eq numeral_2_eq_2)
  have t: "1 \<le> T (test_params 2)"
    by (simp add: test_sel)
  from shock_ignores_first_draw [OF l h] t show ?thesis
    by blast
qed

section \<open>The simulated trajectory\<close>

lemma poly_dot_ok:
  assumes "1 \<le> porder_k p" "1 \<le> porder_z p"
    and "length coef = nat (porder_k p + 1) * nat (porder_z p + 1)"
  shows "\<exists>d. poly_dot p coef a b = Inr d"
  using assms by (simp add: poly_dot_def hermpoly_rows dot21_def)

lemma sim_step_inv:
  assumes ok: "1 \<le> porder_k p" "1 \<le> porder_z p"
    "length (psi s0) = nat (porder_k p + 1) * nat (porder_z p + 1)"
    and len: "length (c s0) = n" "length (k s0) = n" "length (lnk s0) = n"
    and m: "1 \<le> m" "m < n"
    and inv: "sim_inv p lnz z s0 m s"
  shows "\<exists>s'. sim_step p lnz z m s = Inr s' \<and> sim_inv p lnz z s0 (Suc m) s'"
proof -
  have ls: "length (c s) = n" "length (k s) = n" "length (lnk s) = n" "psi s = psi s0"
    using inv len by (simp_all add: sim_inv_def)
  obtain d where d: "poly_dot p (psi s0) (ln (k s ! (m - 1))) (lnz ! (m - 1)) = Inr d"
    using poly_dot_ok [OF ok] by blast
  define s' where "s' = s\<lparr>c := (c s)[m := exp (- d / nu p)],
      k := (k s)[m := z ! m * (k s ! (m - 1)) powr alpha p
                        + (1 - delta p) * k s ! (m - 1) - exp (- d / nu p)],
      lnk := (lnk s)[m - 1 := ln (k s ! (m - 1))]\<rparr>"
  have step: "sim_step p lnz z m s = Inr s'"
    using d m ls by (simp add: sim_step_def Let_def s'_def)
  have old: "sim_rel p lnz z (psi s0) s' t" if t: "1 \<le> t" "t < m" for t
  proof -
    have a: "sim_rel p lnz z (psi s0) s t"
      using inv t by (simp add: sim_inv_def)
    have eqs: "c s' ! t = c s ! t" "k s' ! t = k s ! t" "k s' ! (t - 1) = k s ! (t - 1)"
      "lnk s' ! (t - 1) = lnk s ! (t - 1)"
      using t by (simp_all add: s'_def)
    show ?thesis
      using a unfolding sim_rel_def eqs .
  qed
  have new: "sim_rel p lnz z (psi s0) s' m"
    using d m ls by (simp add: sim_rel_def s'_def)
  have rel: "sim_rel p lnz z (psi s0) s' t" if "1 \<le> t" "t < Suc m" for t
    using that old new by (cases "t = m") auto
  have "sim_inv p lnz z s0 (Suc m) s'"
    using inv m rel by (simp add: sim_inv_def s'_def)
  with step show ?thesis by blast
qed

lemma sim_fold_inv:
  assumes ok: "1 \<le> porder_k p" "1 \<le> porder_z p"
    "length (psi s0) = nat (porder_k p + 1) * nat (porder_z p + 1)"
    and len: "length (c s0) = n" "length (k s0) = n" "length (lnk s0) = n"
    and m: "1 \<le> m" "m \<le> n"
  shows "\<exists>s'. foldE (sim_step p lnz z) [1..<m] s0 = Inr s' \<and> sim_inv p lnz z s0 m s'"
  using m
proof (induction m)
  case 0
  then show ?case by simp
next
  case (Suc m)
  show ?case
  proof (cases "m = 0")
    case True
    then show ?thesis by (simp add: sim_inv_def)
  next
    case False
    with Suc.prems have m: "1 \<le> m" "m < n" by auto
    then obtain s1 where s1: "foldE (sim_step p lnz z) [1..<m] s0 = Inr s1"
      "sim_inv p lnz z s0 m s1"
      using Suc.IH by auto
    from sim_step_inv [OF ok len m s1(2)]
    obtain s2 where s2: "sim_step p lnz z m s1 = Inr s2" "sim_inv p lnz z s0 (Suc m) s2"
      by blast
    have "[1..<Suc m] = [1..<m] @ [m]" using m by simp
    then have "foldE (sim_step p lnz z) [1..<Suc m] s0 = Inr s2"
      using s1(1) s2(1) by (simp add: foldE_append)
    with s2(2) show ?thesis by blast
  qed
qed

lemma simulate_inv:
  assumes ok: "1 \<le> porder_k p" "1 \<le> porder_z p"
    "length (psi s) = nat (porder_k p + 1) * nat (porder_z p + 1)"
    and len: "length (c s) = nat (T p)" "length (k s) = nat (T p)" "length (lnk s) = nat (T p)"
    and T: "1 \<le> T p"
  shows "\<exists>s'. simulate p kss lnz z s = Inr s'
           \<and> sim_inv p lnz z (s\<lparr>k := (k s)[0 := kss], lnk := (lnk s)[0 := ln kss]\<rparr>) (nat (T p)) s'"
proof -
  let ?s0 = "s\<lparr>k := (k s)[0 := kss], lnk := (lnk s)[0 := ln kss]\<rparr>"
  have pos: "0 < length (k s)" using len T by simp
  have "\<exists>s'. foldE (sim_step p lnz z) [1..<nat (T p)] ?s0 = Inr s'
           \<and> sim_inv p lnz z ?s0 (nat (T p)) s'"
    using ok len T by (intro sim_fold_inv [where n = "nat (T p)"]) simp_all
  then show ?thesis
    using pos by (simp add: simulate_def Let_def)
qed

lemma poly_dot_row:
  assumes "1 \<le> porder_k p" "1 \<le> porder_z p"
    and "length coef = nat (porder_k p + 1) * nat (porder_z p + 1)"
    and "poly_dot p coef a b = Inr d"
  shows "\<exists>row. hermpoly (porder_k p, porder_z p) [(a, b)] = Inr (Array2 (length coef) [row])
           \<and> length row = length coef
           \<and> d = (\<Sum>j<length coef. row ! j * coef ! j)"
proof -
  let ?row = "map (tensor_entry (nat (porder_z p + 1)) (a, b)) [0..<length coef]"
  have h: "hermpoly (porder_k p, porder_z p) [(a, b)] = Inr (Array2 (length coef) [?row])"
    using assms(1,2,3) by (simp add: hermpoly_rows)
  have l: "length ?row = length coef"
    by simp
  have "poly_dot p coef a b = Inr (sum_list (map (\<lambda>(u, v). u * v) (zip ?row coef)))"
    by (simp add: poly_dot_def h dot21_def)
  then have "d = sum_list (map (\<lambda>(u, v). u * v) (zip ?row coef))"
    using assms(4) by simp
  also have "\<dots> = (\<Sum>j<length coef. ?row ! j * coef ! j)"
    using l by (rule sum_list_zip_mult)
  finally show ?thesis
    using h l by blast
qed

text \<open>
  C6, as the code has it. Take parameters for which the closed form is defined and
  within the range of doubles, \<open>nu\<close> not zero, orders of at least 1, coefficients of the
  basis dimension and a shock path of length \<open>T \<ge> 1\<close>. Then \<open>k_ss\<close> is the closed form
  \<open>((1-beta+delta*beta)/(alpha*beta)) ** (1/(alpha-1))\<close>, and every pass of the
  simulation, from any contents of the arrays, returns a trajectory with \<open>k[0] = k_ss\<close>
  such that, for every \<open>t\<close> from 1 to \<open>T-1\<close> reached with positive capital so far,
  \<open>c[t] = exp(- (row . psi) / nu)\<close>, where \<open>row\<close> is the single row that \<open>hermpoly\<close>
  returns at the point \<open>(lnk[t-1], lnz[t-1])\<close> and \<open>row . psi\<close> the sum of the products
  of their entries, \<open>k[t] = z[t] * k[t-1] ** alpha + (1-delta) * k[t-1] - c[t]\<close> and
  \<open>lnk[t-1] = log(k[t-1])\<close>.
\<close>

theorem simulate_trajectory:
  assumes par: "alpha p * beta p \<noteq> 0" "alpha p \<noteq> 1"
      "0 < (1 - beta p + delta p * beta p) / (alpha p * beta p)"
    and kss: "kss = ((1 - beta p + delta p * beta p) / (alpha p * beta p)) powr (1 / (alpha p - 1))"
    and fin: "kss \<le> dbl_max"
    and nu: "nu p \<noteq> 0"
    and ok: "1 \<le> porder_k p" "1 \<le> porder_z p"
      "length (psi s) = nat (porder_k p + 1) * nat (porder_z p + 1)"
    and len: "length (c s) = nat (T p)" "length (k s) = nat (T p)" "length (lnk s) = nat (T p)"
    and shock: "length lnz = nat (T p)" "length z = nat (T p)"
    and T: "1 \<le> T p"
  shows "k_ss p = Inr kss
         \<and> (\<exists>s'. simulate p kss lnz z s = Inr s' \<and> k s' ! 0 = kss
               \<and> (\<forall>t. 1 \<le> t \<and> t < nat (T p) \<and> (\<forall>u<t. 0 < k s' ! u) \<longrightarrow>
                     (\<exists>row. hermpoly (porder_k p, porder_z p)
                               [(lnk s' ! (t - 1), lnz ! (t - 1))]
                             = Inr (Array2 (length (psi s)) [row])
                          \<and> length row = length (psi s)
                          \<and> c s' ! t = exp (- (\<Sum>j<length (psi s). row ! j * psi s ! j) / nu p))
                     \<and> k s' ! t = z ! t * (k s' ! (t - 1)) powr alpha p
                                   + (1 - delta p) * k s' ! (t - 1) - c s' ! t
                     \<and> lnk s' ! (t - 1) = ln (k s' ! (t - 1))))"
proof -
  have a: "k_ss p = Inr kss"
    using par fin by (simp add: k_ss_def Let_def kss)
  obtain s' where s': "simulate p kss lnz z s = Inr s'"
    "sim_inv p lnz z (s\<lparr>k := (k s)[0 := kss], lnk := (lnk s)[0 := ln kss]\<rparr>) (nat (T p)) s'"
    using simulate_inv [OF ok len T] by blast
  have pos: "0 < length (k s)" using len T by simp
  have k0: "k s' ! 0 = kss"
    using s'(2) pos by (simp add: sim_inv_def)
  have step: "(\<exists>row. hermpoly (porder_k p, porder_z p) [(lnk s' ! (t - 1), lnz ! (t - 1))]
                      = Inr (Array2 (length (psi s)) [row])
                 \<and> length row = length (psi s)
                 \<and> c s' ! t = exp (- (\<Sum>j<length (psi s). row ! j * psi s ! j) / nu p))
              \<and> k s' ! t = z ! t * (k s' ! (t - 1)) powr alpha p
                            + (1 - delta p) * k s' ! (t - 1) - c s' ! t
              \<and> lnk s' ! (t - 1) = ln (k s' ! (t - 1))"
    if t: "1 \<le> t" "t < nat (T p)" for t
  proof -
    have rel: "sim_rel p lnz z (psi s) s' t"
      using s'(2) t by (simp add: sim_inv_def)
    then obtain d where d: "poly_dot p (psi s) (lnk s' ! (t - 1)) (lnz ! (t - 1)) = Inr d"
      "c s' ! t = exp (- d / nu p)"
      unfolding sim_rel_def by blast
    from poly_dot_row [OF ok d(1)] obtain row where row:
      "hermpoly (porder_k p, porder_z p) [(lnk s' ! (t - 1), lnz ! (t - 1))]
       = Inr (Array2 (length (psi s)) [row])"
      "length row = length (psi s)" "d = (\<Sum>j<length (psi s). row ! j * psi s ! j)"
      by blast
    have "c s' ! t = exp (- (\<Sum>j<length (psi s). row ! j * psi s ! j) / nu p)"
      using d(2) row(3) by simp
    with row(1,2) rel show ?thesis
      unfolding sim_rel_def by blast
  qed
  show ?thesis
    using a s'(1) k0 step by blast
qed

theorem simulate_trajectory_witness:
  "k_ss ((test_params 2)\<lparr>beta := 4 / 5\<rparr>) = Inr 4
   \<and> (\<exists>s'. simulate ((test_params 2)\<lparr>beta := 4 / 5\<rparr>) 4 [0, 0] [1, 1] (vars0 2 [0, 0, 1, 0])
            = Inr s'
         \<and> k s' ! 0 = 4 \<and> c s' ! 1 = 1 / 4 \<and> k s' ! 1 = 23 / 4 \<and> lnk s' ! 0 = ln 4)"
proof -
  let ?p = "(test_params 2)\<lparr>beta := 4 / 5\<rparr>"
  have sel: "alpha ?p = 1 / 2" "beta ?p = 4 / 5" "delta ?p = 0" "nu ?p = 1" "T ?p = 2"
    "porder_k ?p = 1" "porder_z ?p = 1"
    by (simp_all add: test_params_def)
  have four: "(4::real) = (1 / 2) powr (- 2)"
    by (simp add: powr_minus_divide power2_eq_square)
  have kss: "(4::real) = ((1 - beta ?p + delta ?p * beta ?p) / (alpha ?p * beta ?p))
                          powr (1 / (alpha ?p - 1))"
    unfolding sel using four by simp
  have h: "alpha ?p * beta ?p \<noteq> 0" "alpha ?p \<noteq> 1"
    "0 < (1 - beta ?p + delta ?p * beta ?p) / (alpha ?p * beta ?p)"
    "4 \<le> dbl_max" "nu ?p \<noteq> 0" "1 \<le> porder_k ?p" "1 \<le> porder_z ?p"
    "length (psi (vars0 2 [0, 0, 1, 0])) = nat (porder_k ?p + 1) * nat (porder_z ?p + 1)"
    "length (c (vars0 2 [0, 0, 1, 0])) = nat (T ?p)"
    "length (k (vars0 2 [0, 0, 1, 0])) = nat (T ?p)"
    "length (lnk (vars0 2 [0, 0, 1, 0])) = nat (T ?p)"
    "length [0, 0 :: real] = nat (T ?p)" "length [1, 1 :: real] = nat (T ?p)" "1 \<le> T ?p"
    using dbl_max_ge by (simp_all add: sel vars0_def)
  from simulate_trajectory [OF h(1,2,3) kss h(4-14)]
  obtain s' where a: "k_ss ?p = Inr 4"
    and s': "simulate ?p 4 [0, 0] [1, 1] (vars0 2 [0, 0, 1, 0]) = Inr s'" "k s' ! 0 = 4"
    and all: "\<forall>t. 1 \<le> t \<and> t < nat (T ?p) \<and> (\<forall>u<t. 0 < k s' ! u) \<longrightarrow>
         (\<exists>row. hermpoly (porder_k ?p, porder_z ?p) [(lnk s' ! (t - 1), [0, 0] ! (t - 1))]
                 = Inr (Array2 (length (psi (vars0 2 [0, 0, 1, 0]))) [row])
              \<and> length row = length (psi (vars0 2 [0, 0, 1, 0]))
              \<and> c s' ! t = exp (- (\<Sum>j<length (psi (vars0 2 [0, 0, 1, 0])).
                                     row ! j * psi (vars0 2 [0, 0, 1, 0]) ! j) / nu ?p))
         \<and> k s' ! t = [1, 1] ! t * (k s' ! (t - 1)) powr alpha ?p
                       + (1 - delta ?p) * k s' ! (t - 1) - c s' ! t
         \<and> lnk s' ! (t - 1) = ln (k s' ! (t - 1))"
    by blast
  have pre: "1 \<le> (1::nat) \<and> 1 < nat (T ?p) \<and> (\<forall>u<1. 0 < k s' ! u)"
    using s'(2) by (simp add: sel)
  from all [rule_format, OF pre] obtain row where
    row: "hermpoly (porder_k ?p, porder_z ?p) [(lnk s' ! (1 - 1), [0, 0] ! (1 - 1))]
          = Inr (Array2 (length (psi (vars0 2 [0, 0, 1, 0]))) [row])"
    and c1: "c s' ! 1 = exp (- (\<Sum>j<length (psi (vars0 2 [0, 0, 1, 0])).
                               row ! j * psi (vars0 2 [0, 0, 1, 0]) ! j) / nu ?p)"
    and k1: "k s' ! 1 = [1, 1] ! 1 * (k s' ! (1 - 1)) powr alpha ?p
                        + (1 - delta ?p) * k s' ! (1 - 1) - c s' ! 1"
    and l0: "lnk s' ! (1 - 1) = ln (k s' ! (1 - 1))"
    by blast
  have l0': "lnk s' ! 0 = ln 4"
    using l0 s'(2) by simp
  have "row = [1, 0, ln 4, ln 4 * 0]"
    using row l0' by (simp add: sel hermpoly_11)
  then have c1': "c s' ! 1 = 1 / 4"
    using c1 by (simp add: sel vars0_def lessThan_Suc numeral_eq_Suc exp_minus inverse_eq_divide)
  have "(4::real) powr (1 / 2) = 2"
    by (simp add: powr_half_sqrt)
  then have "k s' ! 1 = 23 / 4"
    using k1 c1' s'(2) by (simp add: sel)
  with a s' c1' l0' show ?thesis
    by blast
qed

text \<open>
  C6, as stated, fails: not every choice of parameters has a trajectory. With
  \<open>alpha = 1\<close> the closed form divides by \<open>alpha - 1 = 0\<close>, Python raises
  ZeroDivisionError, and the run ends before any capital is stored.
\<close>

theorem no_steady_state_counterexample:
  "main_cell ((test_params 2)\<lparr>alpha := 1\<rparr>) zero_draws (const_fit [0, 0, 0, 0]) [0, 0, 0, 0]
   = Inl ZeroDivisionError"
  by (simp add: main_cell_def k_ss_def test_params_def)

text \<open>
  With order 0 for the k-state and at least two periods the simulation has no trajectory
  either: its first step calls \<open>hermpoly\<close>, whose call of \<open>hermterms\<close> raises
  IndexError.
\<close>

lemma simulate_order0:
  assumes "porder_k p = 0" "2 \<le> T p" "0 < length (k s)"
  shows "simulate p kss lnz z s = Inl IndexError"
proof -
  have "[1..<nat (T p)] = 1 # [2..<nat (T p)]"
    using assms(2) by (simp add: upt_rec numeral_2_eq_2)
  moreover have "sim_step p lnz z 1 s0 = Inl IndexError" for s0
    using assms(1) by (simp add: sim_step_def poly_dot_def hermpoly_def hermterms_def ones_def Let_def)
  ultimately show ?thesis
    using assms(3) by (simp add: simulate_def Let_def)
qed

text \<open>
  C4, as the code has it: the simulation has no divergence check. With orders of at least
  1, coefficients of the basis dimension and \<open>T \<ge> 1\<close>, it completes every time step
  for every \<open>psi\<close> and returns series of full length \<open>T\<close>, whatever the sign of the
  capital it computes.
\<close>

theorem simulate_never_raises:
  assumes ok: "1 \<le> porder_k p" "1 \<le> porder_z p"
      "length (psi s) = nat (porder_k p + 1) * nat (porder_z p + 1)"
    and len: "length (c s) = nat (T p)" "length (k s) = nat (T p)" "length (lnk s) = nat (T p)"
    and T: "1 \<le> T p"
  shows "\<exists>s'. simulate p kss lnz z s = Inr s'
           \<and> length (c s') = nat (T p) \<and> length (k s') = nat (T p)
           \<and> length (lnk s') = nat (T p)"
proof -
  obtain s' where s': "simulate p kss lnz z s = Inr s'"
    "sim_inv p lnz z (s\<lparr>k := (k s)[0 := kss], lnk := (lnk s)[0 := ln kss]\<rparr>) (nat (T p)) s'"
    using simulate_inv [OF ok len T] by blast
  then show ?thesis
    using len by (auto simp: sim_inv_def)
qed

theorem simulate_never_raises_witness:
  "\<exists>s'. simulate (test_params 2) 1 [0, 0] [1, 1] (vars0 2 [- 2, 0, 0, 0]) = Inr s'
      \<and> length (c s') = 2 \<and> length (k s') = 2 \<and> length (lnk s') = 2"
  using simulate_never_raises [of "test_params 2" "vars0 2 [- 2, 0, 0, 0]" 1 "[0, 0]" "[1, 1]"]
  by (simp add: test_sel vars0_def)

text \<open>
  C4, as stated, fails: with \<open>psi = [-2, 0, 0, 0]\<close> the first step gives
  \<open>c[1] = exp 2\<close> and \<open>k[1] = 2 - exp 2 < 0\<close>, and the run does not end in a failure:
  the loop goes on to the fit and leaves through \<open>break\<close>.
\<close>

theorem negative_capital_counterexample:
  "main_cell (test_params 2) zero_draws (const_fit [- 2, 0, 0, 0]) [- 2, 0, 0, 0]
   = Inr (Break, \<lparr>c = [0, exp 2], k = [1, 2 - exp 2], lnk = [0, 0], psi = [- 2, 0, 0, 0],
                  psi_out = Some [- 2, 0, 0, 0], delpsi = Some 0\<rparr>)
   \<and> 2 - exp 2 < (0::real)"
proof -
  have "1 + 2 \<le> exp (2::real)" by (rule exp_ge_add_one_self)
  then have "2 - exp 2 < (0::real)" by simp
  then show ?thesis
    by (simp add: test_main_cell test_main_pass)
qed

section \<open>Consumption at index 0\<close>

lemma sim_step_keeps:
  assumes "sim_step p lnz z t s = Inr s'" "1 \<le> t"
  shows "keeps s s'"
  using assms
  by (auto simp: sim_step_def Let_def bindE_def keeps_def split: sum.splits)

lemma foldE_keeps:
  assumes "foldE (sim_step p lnz z) ts s = Inr s'" "\<forall>t \<in> set ts. 1 \<le> t"
  shows "keeps s s'"
  using assms
proof (induction ts arbitrary: s)
  case Nil
  then show ?case by (simp add: keeps_def)
next
  case (Cons t ts)
  from Cons.prems(1) obtain s1 where s1: "sim_step p lnz z t s = Inr s1"
    "foldE (sim_step p lnz z) ts s1 = Inr s'"
    by (auto simp: bindE_def split: sum.splits)
  have "keeps s s1" using s1(1) Cons.prems(2) by (intro sim_step_keeps) auto
  moreover have "keeps s1 s'" using s1(2) Cons.prems(2) by (intro Cons.IH) auto
  ultimately show ?case by (simp add: keeps_def)
qed

lemma simulate_keeps:
  assumes "simulate p kss lnz z s = Inr s'"
  shows "keeps s s'"
proof -
  from assms have "foldE (sim_step p lnz z) [1..<nat (T p)]
      (s\<lparr>k := (k s)[0 := kss], lnk := (lnk s)[0 := ln ((k s)[0 := kss] ! 0)]\<rparr>) = Inr s'"
    by (simp add: simulate_def Let_def split: if_splits)
  then have "keeps (s\<lparr>k := (k s)[0 := kss], lnk := (lnk s)[0 := ln ((k s)[0 := kss] ! 0)]\<rparr>) s'"
    by (rule foldE_keeps) simp
  then show ?thesis by (simp add: keeps_def)
qed

lemma main_pass_c0:
  assumes "main_pass p kss lnz z minimize s = Inr (brk, s')"
  shows "length (c s') = length (c s) \<and> c s' ! 0 = c s ! 0"
proof -
  from assms obtain s1 where s1: "simulate p kss lnz z s = Inr s1"
    and c: "c s' = c s1"
    by (auto simp: main_pass_def bindE_def Let_def split: sum.splits if_splits)
  from simulate_keeps [OF s1] c show ?thesis by (simp add: keeps_def)
qed

lemma psiter_loop_c0:
  assumes "psiter_loop p kss lnz z minimize n s = Inr (ex, s')"
  shows "length (c s') = length (c s) \<and> c s' ! 0 = c s ! 0"
  using assms
proof (induction n arbitrary: s)
  case 0
  then show ?case by simp
next
  case (Suc n)
  from Suc.prems obtain brk s1 where s1: "main_pass p kss lnz z minimize s = Inr (brk, s1)"
    by (auto simp: bindE_def split: sum.splits)
  note c1 = main_pass_c0 [OF s1]
  show ?case
  proof (cases brk)
    case True
    with Suc.prems s1 have "s' = s1" by simp
    with c1 show ?thesis by simp
  next
    case False
    with Suc.prems s1 have "psiter_loop p kss lnz z minimize n s1 = Inr (ex, s')" by simp
    from Suc.IH [OF this] c1 show ?thesis by simp
  qed
qed

text \<open>
  C9: whenever the main cell returns, after any number of outer iterations and for
  every \<open>psi\<close>, minimiser, noise and parameters with \<open>T \<ge> 1\<close>, the consumption
  series has length \<open>T\<close> and its entry 0 is still the 0 of its allocation.
\<close>

theorem consumption_zero_untouched:
  assumes "main_cell p draws minimize psi0 = Inr (ex, s)" "1 \<le> T p"
  shows "length (c s) = nat (T p) \<and> c s ! 0 = 0"
proof -
  from assms(1) obtain kss lnz z where
    "psiter_loop p kss lnz z minimize (nat (maxiter p))
       \<lparr>c = replicate (nat (T p)) 0, k = replicate (nat (T p)) 0,
        lnk = replicate (nat (T p)) 0, psi = psi0, psi_out = None, delpsi = None\<rparr> = Inr (ex, s)"
    by (auto simp: main_cell_def bindE_def split: sum.splits prod.splits)
  from psiter_loop_c0 [OF this] assms(2) show ?thesis by simp
qed

theorem consumption_zero_untouched_witness:
  "length (c \<lparr>c = [0, 1], k = [1, 1], lnk = [0, 0], psi = [0, 0, 0, 0],
              psi_out = Some [0, 0, 0, 0], delpsi = Some 0\<rparr>) = nat (T (test_params 2))
   \<and> c \<lparr>c = [0, 1], k = [1, 1], lnk = [0, 0], psi = [0, 0, 0, 0],
         psi_out = Some [0, 0, 0, 0], delpsi = Some 0\<rparr> ! 0 = 0"
  by (rule consumption_zero_untouched
      [of "test_params 2" zero_draws "const_fit [0, 0, 0, 0]" "[0, 0, 0, 0]" Break])
    (simp_all add: test_main_cell test_main_pass test_sel)

section \<open>The regression sample\<close>

text \<open>
  C5: for \<open>2 \<le> T1 \<le> T\<close> and orders of at least 1, the sample has \<open>T - T1\<close> rows.
  Row \<open>j\<close> belongs to time \<open>i = T1 - 1 + j\<close>: the target is
  \<open>beta * c[i+1] ** (-nu) * (alpha * z[i+1] * k[i] ** (alpha-1) + 1 - delta)\<close> and the
  row of the design matrix is \<open>hermpoly\<close> at \<open>(lnk[i-1], lnz[i])\<close>.
\<close>

theorem sample_alignment:
  assumes win: "2 \<le> T1 p" "T1 p \<le> T p"
    and ok: "1 \<le> porder_k p" "1 \<le> porder_z p"
    and len: "length (c s) = nat (T p)" "length (k s) = nat (T p)" "length (lnk s) = nat (T p)"
      "length lnz = nat (T p)" "length z = nat (T p)"
  shows "\<exists>Y X. build_Y p z s = Inr Y \<and> build_X p lnz s = Inr X
           \<and> length Y = nat (T p - T1 p) \<and> length (rows X) = nat (T p - T1 p)
           \<and> ncols X = nat (porder_k p + 1) * nat (porder_z p + 1)
           \<and> (\<forall>j. j < nat (T p - T1 p) \<longrightarrow>
                 Y ! j = beta p * (c s ! (nat (T1 p) + j)) powr (- nu p)
                         * (alpha p * z ! (nat (T1 p) + j)
                              * (k s ! (nat (T1 p) + j - 1)) powr (alpha p - 1) + 1 - delta p)
                 \<and> hermpoly (porder_k p, porder_z p)
                      [(lnk s ! (nat (T1 p) + j - 2), lnz ! (nat (T1 p) + j - 1))]
                    = Inr (Array2 (ncols X) [rows X ! j]))"
proof -
  let ?n = "nat (T p - T1 p)"
  let ?cs = "py_slice (T1 p) (T p) (c s)"
  let ?zs = "py_slice (T1 p) (T p) z"
  let ?ks = "py_slice (T1 p - 1) (T p - 1) (k s)"
  let ?a = "py_slice (T1 p - 2) (T p - 2) (lnk s)"
  let ?b = "py_slice (T1 p - 1) (T p - 1) lnz"
  have w0: "(0::int) \<le> 0" "0 \<le> T1 p" "T1 p \<le> T p"
    and w1: "(0::int) \<le> 1" "1 \<le> T1 p"
    and w2: "(0::int) \<le> 2" "2 \<le> T1 p"
    using win by simp_all
  have tl: "T p \<le> int (length (c s))" "T p \<le> int (length z)" "T p \<le> int (length (k s))"
    "T p \<le> int (length (lnk s))" "T p \<le> int (length lnz)"
    using win len by simp_all
  have lc: "length ?cs = ?n" and lz: "length ?zs = ?n"
    using py_slice_window(1) [OF w0 tl(1)] py_slice_window(1) [OF w0 tl(2)] by simp_all
  have lk: "length ?ks = ?n" and lb: "length ?b = ?n"
    using py_slice_window(1) [OF w1 w0(3) tl(3)] py_slice_window(1) [OF w1 w0(3) tl(5)]
    by simp_all
  have la: "length ?a = ?n"
    using py_slice_window(1) [OF w2 w0(3) tl(4)] by simp
  have nc: "j < ?n \<Longrightarrow> ?cs ! j = c s ! (nat (T1 p) + j)" for j
    using py_slice_window(2) [OF w0 tl(1), of j] by simp
  have nz: "j < ?n \<Longrightarrow> ?zs ! j = z ! (nat (T1 p) + j)" for j
    using py_slice_window(2) [OF w0 tl(2), of j] by simp
  have nk: "j < ?n \<Longrightarrow> ?ks ! j = k s ! (nat (T1 p) + j - 1)" for j
    using py_slice_window(2) [OF w1 w0(3) tl(3), of j] by simp
  have nb: "j < ?n \<Longrightarrow> ?b ! j = lnz ! (nat (T1 p) + j - 1)" for j
    using py_slice_window(2) [OF w1 w0(3) tl(5), of j] by simp
  have na: "j < ?n \<Longrightarrow> ?a ! j = lnk s ! (nat (T1 p) + j - 2)" for j
    using py_slice_window(2) [OF w2 w0(3) tl(4), of j] by simp
  define Y where "Y = map (\<lambda>(u, v). u * v)
      (zip (map (\<lambda>v. beta p * v powr (- nu p)) ?cs)
           (map (\<lambda>v. v + 1 - delta p)
              (map (\<lambda>(u, v). u * v)
                 (zip (map (\<lambda>v. alpha p * v) ?zs) (map (\<lambda>v. v powr (alpha p - 1)) ?ks)))))"
  have bY: "build_Y p z s = Inr Y"
    by (simp add: build_Y_def ew2_def lc lz lk Y_def)
  have lY: "length Y = ?n"
    by (simp add: Y_def lc lz lk)
  have vY: "Y ! j = beta p * (c s ! (nat (T1 p) + j)) powr (- nu p)
                    * (alpha p * z ! (nat (T1 p) + j)
                         * (k s ! (nat (T1 p) + j - 1)) powr (alpha p - 1) + 1 - delta p)"
    if "j < ?n" for j
    using that by (simp add: Y_def lc lz lk nc nz nk)
  define X where "X = Array2 (nat (porder_k p + 1) * nat (porder_z p + 1))
      (map (\<lambda>pt. map (tensor_entry (nat (porder_z p + 1)) pt)
                     [0..<nat (porder_k p + 1) * nat (porder_z p + 1)]) (zip ?a ?b))"
  have bX: "build_X p lnz s = Inr X"
    using ok by (simp add: build_X_def Let_def la lb hermpoly_rows X_def)
  have lX: "length (rows X) = ?n"
    by (simp add: X_def la lb)
  have vX: "hermpoly (porder_k p, porder_z p)
              [(lnk s ! (nat (T1 p) + j - 2), lnz ! (nat (T1 p) + j - 1))]
            = Inr (Array2 (ncols X) [rows X ! j])"
    if "j < ?n" for j
  proof -
    have "zip ?a ?b ! j = (lnk s ! (nat (T1 p) + j - 2), lnz ! (nat (T1 p) + j - 1))"
      using that by (simp add: la lb na nb)
    moreover have "j < length (zip ?a ?b)"
      using that by (simp add: la lb)
    ultimately show ?thesis
      using hermpoly_single_row [OF ok, of j "zip ?a ?b"] by (simp add: X_def)
  qed
  have "ncols X = nat (porder_k p + 1) * nat (porder_z p + 1)"
    by (simp add: X_def)
  with bY bX lY lX vY vX show ?thesis
    by blast
qed

theorem sample_alignment_witness:
  "\<exists>Y X. build_Y ((test_params 2)\<lparr>T := 3\<rparr>) [1, 1, 1]
            \<lparr>c = [0, 1, 1], k = [1, 1, 1], lnk = [0, 0, 0], psi = [0, 0, 0, 0],
             psi_out = None, delpsi = None\<rparr> = Inr Y
      \<and> build_X ((test_params 2)\<lparr>T := 3\<rparr>) [0, 0, 0]
            \<lparr>c = [0, 1, 1], k = [1, 1, 1], lnk = [0, 0, 0], psi = [0, 0, 0, 0],
             psi_out = None, delpsi = None\<rparr> = Inr X
      \<and> length Y = 1 \<and> length (rows X) = 1 \<and> ncols X = 4
      \<and> Y ! 0 = 1
      \<and> hermpoly (1, 1) [(0, 0)] = Inr (Array2 (ncols X) [rows X ! 0])"
  using sample_alignment [of "(test_params 2)\<lparr>T := 3\<rparr>"
      "\<lparr>c = [0, 1, 1], k = [1, 1, 1], lnk = [0, 0, 0], psi = [0, 0, 0, 0],
        psi_out = None, delpsi = None\<rparr>" "[0, 0, 0]" "[1, 1, 1]"]
  by (simp add: test_params_def)

section \<open>The fixed-point loop\<close>

text \<open>
  C3, as the code has it. Let a pass simulate, build the sample and fit a candidate
  \<open>out\<close> of the length of \<open>psi\<close>, and let \<open>dp\<close> be the Euclidean norm of
  \<open>psi - out\<close>. With no pass left the loop ends with its state unchanged. If
  \<open>dp < psitol\<close> the loop ends through \<open>break\<close> and \<open>psi\<close> keeps its value: the
  candidate is only recorded in \<open>psi_out\<close>. Otherwise the loop continues with
  \<open>psi = lrate * out + (1 - lrate) * psi\<close>.
\<close>

theorem pass_outcome:
  assumes sim: "simulate p kss lnz z s = Inr s1"
    and Y: "build_Y p z s1 = Inr Y" and X: "build_X p lnz s1 = Inr X"
    and fit: "minimize (\<lambda>coef. rss coef Y X) (psi s) = Inr out"
    and len: "length out = length (psi s)"
    and dp: "dp = sqrt (\<Sum>i<length (psi s). (psi s ! i - out ! i)\<^sup>2)"
  shows "psiter_loop p kss lnz z minimize 0 s = Inr (Exhausted, s)
         \<and> (dp < psitol p \<longrightarrow>
              psiter_loop p kss lnz z minimize (Suc n) s
              = Inr (Break, s1\<lparr>psi_out := Some out, delpsi := Some dp\<rparr>)
              \<and> psi s1 = psi s)
         \<and> (\<not> dp < psitol p \<longrightarrow>
              psiter_loop p kss lnz z minimize (Suc n) s
              = psiter_loop p kss lnz z minimize n
                  (s1\<lparr>psi_out := Some out, delpsi := Some dp,
                      psi := map (\<lambda>i. lrate p * out ! i + (1 - lrate p) * psi s ! i)
                               [0..<length (psi s)]\<rparr>))"
proof -
  have ps: "psi s1 = psi s"
    using simulate_keeps [OF sim] by (simp add: keeps_def)
  have d: "ew2 (\<lambda>u v. u - v) (psi s) out
           = Inr (map (\<lambda>i. psi s ! i - out ! i) [0..<length (psi s)])"
    using len by (simp add: ew2_same_length)
  have n: "sqrt (sum_list (map (\<lambda>v. \<bar>v\<bar> ^ 2) (map (\<lambda>i. psi s ! i - out ! i) [0..<length (psi s)])))
           = dp"
    unfolding sq_norm_sum dp ..
  have u: "ew2 (\<lambda>u v. u + v) (map (\<lambda>v. lrate p * v) out) (map (\<lambda>v. (1 - lrate p) * v) (psi s))
           = Inr (map (\<lambda>i. lrate p * out ! i + (1 - lrate p) * psi s ! i) [0..<length (psi s)])"
    using len by (simp add: ew2_same_length)
  have pass: "main_pass p kss lnz z minimize s
        = (if dp < psitol p then Inr (True, s1\<lparr>psi_out := Some out, delpsi := Some dp\<rparr>)
           else Inr (False, s1\<lparr>psi_out := Some out, delpsi := Some dp,
                      psi := map (\<lambda>i. lrate p * out ! i + (1 - lrate p) * psi s ! i)
                               [0..<length (psi s)]\<rparr>))"
    unfolding main_pass_def sim bindE_Inr Y X ps fit d n u Let_def by simp
  show ?thesis
    using ps by (simp add: pass)
qed

theorem pass_outcome_witness:
  "psiter_loop (test_params 2) 1 [0, 0] [1, 1] (const_fit [1, 0, 0, 0]) (Suc 0)
     (vars0 2 [0, 0, 0, 0])
   = Inr (Break, \<lparr>c = [0, 1], k = [1, 1], lnk = [0, 0], psi = [0, 0, 0, 0],
                  psi_out = Some [1, 0, 0, 0], delpsi = Some 1\<rparr>)
   \<and> psiter_loop (test_params (1 / 2)) 1 [0, 0] [1, 1] (const_fit [1, 0, 0, 0]) (Suc 0)
       (vars0 2 [0, 0, 0, 0])
     = Inr (Exhausted, \<lparr>c = [0, 1], k = [1, 1], lnk = [0, 0], psi = [1 / 2, 0, 0, 0],
                  psi_out = Some [1, 0, 0, 0], delpsi = Some 1\<rparr>)"
proof -
  let ?s1 = "(vars0 2 [0, 0, 0, 0])\<lparr>c := [0, exp (- 0)], k := [1, 2 - exp (- 0)], lnk := [0, 0]\<rparr>"
  have dp: "1 = sqrt (\<Sum>i<length (psi (vars0 2 [0, 0, 0, 0])).
                 (psi (vars0 2 [0, 0, 0, 0]) ! i - [1, 0, 0, 0] ! i)\<^sup>2)"
    by (simp add: vars0_def lessThan_Suc numeral_eq_Suc)
  have fit: "const_fit [1, 0, 0, 0] (\<lambda>coef. rss coef [] (Array2 4 [])) (psi (vars0 2 [0, 0, 0, 0]))
             = Inr [1, 0, 0, 0]"
    by (simp add: const_fit_def)
  have len: "length [1, 0, 0, 0 :: real] = length (psi (vars0 2 [0, 0, 0, 0]))"
    by (simp add: vars0_def)
  have Y: "build_Y (test_params tol) [1, 1] ?s1 = Inr []" for tol
    by (rule test_build_Y) (simp_all add: vars0_def)
  have X: "build_X (test_params tol) [0, 0] ?s1 = Inr (Array2 4 [])" for tol
    by (rule test_build_X) (simp add: vars0_def)
  from pass_outcome [where minimize = "const_fit [1, 0, 0, 0]" and n = 0 and dp = 1,
      OF test_simulate [of 2 0 0 0 0] Y [of 2] X [of 2] fit len dp]
    pass_outcome [where minimize = "const_fit [1, 0, 0, 0]" and n = 0 and dp = 1,
      OF test_simulate [of "1 / 2" 0 0 0 0] Y [of "1 / 2"] X [of "1 / 2"] fit len dp]
  show ?thesis
    by (simp add: test_sel vars0_def upt_rec numeral_eq_Suc)
qed

text \<open>
  C3, as stated, fails: a candidate \<open>[1, 0, 0, 0]\<close> at distance 1 from
  \<open>psi = [0, 0, 0, 0]\<close>, with tolerance 2, ends the loop through \<open>break\<close> with
  \<open>psi\<close> still \<open>[0, 0, 0, 0]\<close>, not the candidate.
\<close>

theorem converged_keeps_current_counterexample:
  "main_cell (test_params 2) zero_draws (const_fit [1, 0, 0, 0]) [0, 0, 0, 0]
   = Inr (Break, \<lparr>c = [0, 1], k = [1, 1], lnk = [0, 0], psi = [0, 0, 0, 0],
                  psi_out = Some [1, 0, 0, 0], delpsi = Some 1\<rparr>)"
  by (simp add: test_main_cell test_main_pass)

end
